theory Spec2Isabelle
  imports Complex_Main "HOL-Library.Sublist"
begin

section \<open>Python values and exceptions\<close>

text \<open>
  The program is a single Python script (\<^verbatim>\<open>app.py\<close>). Exceptions are values of the
  type \<open>exn\<close>; an \<open>Exception\<close> carries the text that \<^verbatim>\<open>str(e)\<close> returns, the only
  thing the script ever reads from an exception.
\<close>

datatype exn =
    KeyError string
  | TypeError
  | IndexError
  | ZeroDivisionError
  | OSError
  | UnboundLocalError
  | Exception string

text \<open>Python's \<^verbatim>\<open>p in s\<close> on strings: \<open>p\<close> occurs in \<open>s\<close> as a contiguous substring.\<close>

fun contains :: "string \<Rightarrow> string \<Rightarrow> bool" where
  "contains p [] = (p = [])"
| "contains p (c # cs) = (prefix p (c # cs) \<or> contains p cs)"

section \<open>The generation request and its retry loop\<close>

text \<open>
  What the script does that the outside can observe, in order: the calls of
  \<^verbatim>\<open>model.generate_content\<close> (with the loop's attempt index), the calls of
  \<^verbatim>\<open>time.sleep\<close> (with the seconds), and what it shows on the page.
\<close>

datatype event =
    Generate nat
  | Sleep nat
  | RateLimitWarning nat nat nat
  | StError string
  | StWarning string
  | StCode string
  | StStatus string
  | StVideo nat

text \<open>
  One call of \<^verbatim>\<open>model.generate_content\<close> either returns a response (its \<^verbatim>\<open>.text\<close>) or
  raises an exception (its \<^verbatim>\<open>str\<close>). The service is a parameter: \<open>gen attempt\<close> is
  what the call made in iteration \<open>attempt\<close> of the loop does.
\<close>

datatype gen_result = Response string | Raises string

definition max_retries :: nat where
  "max_retries = 3"

definition is_rate_limit :: "string \<Rightarrow> bool" where
  "is_rate_limit e = (contains ''429'' e \<or> contains ''Resource exhausted'' e)"

definition rate_limit_message :: string where
  "rate_limit_message =
     ''Rate limit exceeded. Please wait a few minutes and try again, or use a different API key.''"

text \<open>
  The loop \<^verbatim>\<open>for attempt in range(max_retries)\<close> of \<^verbatim>\<open>analyze_videos_with_gemini\<close>,
  from iteration \<open>attempt\<close> on. A loop that ran out without \<^verbatim>\<open>break\<close> or \<^verbatim>\<open>raise\<close> would
  leave \<^verbatim>\<open>response\<close> unbound.
\<close>

function retry_loop :: "(nat \<Rightarrow> gen_result) \<Rightarrow> nat \<Rightarrow> event list \<Rightarrow> (exn + string) \<times> event list" where
  "retry_loop gen attempt tr =
     (if attempt < max_retries then
        (case gen attempt of
           Response r \<Rightarrow> (Inr r, tr @ [Generate attempt])
         | Raises e \<Rightarrow>
             if is_rate_limit e then
               (if attempt < max_retries - 1 then
                  retry_loop gen (attempt + 1)
                    (tr @ [Generate attempt,
                            RateLimitWarning (2 ^ attempt * 2) (attempt + 2) max_retries,
                            Sleep (2 ^ attempt * 2)])
                else (Inl (Exception rate_limit_message), tr @ [Generate attempt]))
             else (Inl (Exception e), tr @ [Generate attempt]))
      else (Inl UnboundLocalError, tr))"
  by pat_completeness auto
termination
  by (relation "measure (\<lambda>(gen, attempt, tr). max_retries - attempt)") auto

declare retry_loop.simps [simp del]

definition generate_with_retry :: "(nat \<Rightarrow> gen_result) \<Rightarrow> (exn + string) \<times> event list" where
  "generate_with_retry gen = retry_loop gen 0 []"

text \<open>Reading the trace: the seconds slept, in order, and the number of requests made.\<close>

fun sleeps :: "event list \<Rightarrow> nat list" where
  "sleeps [] = []"
| "sleeps (Sleep s # es) = s # sleeps es"
| "sleeps (e # es) = sleeps es"

fun requests :: "event list \<Rightarrow> nat" where
  "requests [] = 0"
| "requests (Generate a # es) = Suc (requests es)"
| "requests (e # es) = requests es"

text \<open>A service that answers every request with a rate-limit error.\<close>

definition always_429 :: "nat \<Rightarrow> gen_result" where
  "always_429 attempt = Raises ''429 Too Many Requests''"

section \<open>Parsing the response\<close>

text \<open>
  What \<^verbatim>\<open>json.loads\<close> returns: Python's \<^verbatim>\<open>None\<close>, \<^verbatim>\<open>bool\<close>, \<^verbatim>\<open>int\<close>, \<^verbatim>\<open>float\<close>, \<^verbatim>\<open>str\<close>,
  \<^verbatim>\<open>list\<close> and \<^verbatim>\<open>dict\<close> (its keys distinct, in the order of the text). A float is
  modelled by the rational number it denotes: comparisons of floats are exact, the
  rounding of their arithmetic and the values \<^verbatim>\<open>NaN\<close> and \<^verbatim>\<open>Infinity\<close> are left out.
\<close>

datatype json =
    JNull
  | JBool bool
  | JInt int
  | JFloat rat
  | JStr string
  | JArr "json list"
  | JObj "(string \<times> json) list"

text \<open>
  The three regular expressions of the script, each written out as the function its
  backtracking search computes. \<open>is_space\<close> is \<^verbatim>\<open>\s\<close> on the ASCII range.
\<close>

definition is_space :: "char \<Rightarrow> bool" where
  "is_space c = (c \<in> set [CHR 0x09, CHR 0x0A, CHR 0x0B, CHR 0x0C, CHR 0x0D,
                            CHR 0x1C, CHR 0x1D, CHR 0x1E, CHR 0x1F, CHR 0x20])"

definition fence :: string where
  "fence = [CHR 0x60, CHR 0x60, CHR 0x60]"

text \<open>
  \<^verbatim>\<open>(\[.*?\])\s*```\<close> after the opening bracket: the lazy \<^verbatim>\<open>.*?\<close> grows one character
  at a time and stops at the first \<^verbatim>\<open>]\<close> that is followed by optional white space and
  a fence. \<open>acc\<close> is the group matched so far.
\<close>

fun lazy_group :: "string \<Rightarrow> string \<Rightarrow> string option" where
  "lazy_group acc [] = None"
| "lazy_group acc (c # cs) =
     (if c = CHR '']'' \<and> prefix fence (dropWhile is_space cs) then Some (acc @ [c])
      else lazy_group (acc @ [c]) cs)"

text \<open>The whole pattern \<^verbatim>\<open>```(?:json)?\s*(\[.*?\])\s*```\<close> tried at the head of \<open>s\<close>.\<close>

definition match_fenced_at :: "string \<Rightarrow> string option" where
  "match_fenced_at s =
     (if prefix fence s then
        (let r1 = drop 3 s;
             r2 = (if prefix ''json'' r1 then drop 4 r1 else r1);
             r3 = dropWhile is_space r2
         in case r3 of
              [] \<Rightarrow> None
            | c # cs \<Rightarrow> if c = CHR ''['' then lazy_group [c] cs else None)
      else None)"

text \<open>\<^verbatim>\<open>re.search\<close> with that pattern (flag \<^verbatim>\<open>DOTALL\<close>): the leftmost position that matches;
  the value is \<^verbatim>\<open>group(1)\<close>.\<close>

fun search_fenced :: "string \<Rightarrow> string option" where
  "search_fenced [] = None"
| "search_fenced (c # cs) =
     (case match_fenced_at (c # cs) of
        Some g \<Rightarrow> Some g
      | None \<Rightarrow> search_fenced cs)"

text \<open>
  \<^verbatim>\<open>re.search(r'(\[.*\])', text, re.DOTALL)\<close>: the greedy \<^verbatim>\<open>.*\<close> runs from the first
  \<^verbatim>\<open>[\<close> of the text to the last \<^verbatim>\<open>]\<close> after it.
\<close>

definition search_array :: "string \<Rightarrow> string option" where
  "search_array text =
     (case dropWhile (\<lambda>c. c \<noteq> CHR ''['') text of
        [] \<Rightarrow> None
      | c # cs \<Rightarrow>
          (let g = rev (dropWhile (\<lambda>c. c \<noteq> CHR '']'') (rev cs))
           in if g = [] then None else Some (c # g)))"

text \<open>
  \<^verbatim>\<open>re.sub(r'//.*$', '', s, flags=re.MULTILINE)\<close>: on every line, what stands from the
  first \<^verbatim>\<open>//\<close> to the end of the line is removed (the newline stays).
\<close>

function strip_comments :: "string \<Rightarrow> string" where
  "strip_comments [] = []"
| "strip_comments (c # cs) =
     (if prefix ''//'' (c # cs) then strip_comments (dropWhile (\<lambda>x. x \<noteq> CHR 0x0A) cs)
      else c # strip_comments cs)"
  by pat_completeness auto
termination
  by (relation "measure length") (auto simp: length_dropWhile_le less_Suc_eq_le)

text \<open>
  The parsing cascade of \<^verbatim>\<open>analyze_videos_with_gemini\<close>. \<^verbatim>\<open>json.loads\<close> is a
  parameter (\<open>None\<close> where it raises \<^verbatim>\<open>JSONDecodeError\<close>). The value is what the
  function returns as \<^verbatim>\<open>segments\<close> (Python's \<^verbatim>\<open>None\<close> is \<open>JNull\<close>) and what it shows.
\<close>

definition parse_failed_message :: string where
  "parse_failed_message = ''Failed to parse JSON from Gemini response.''"

definition parse_response :: "(string \<Rightarrow> json option) \<Rightarrow> string \<Rightarrow> json \<times> event list" where
  "parse_response loads text =
     (case loads text of
        Some segments \<Rightarrow> (segments, [])
      | None \<Rightarrow>
          (case (case search_fenced text of
                   Some g \<Rightarrow> loads g
                 | None \<Rightarrow> None) of
             Some segments \<Rightarrow> (segments, [])
           | None \<Rightarrow>
               (case (case search_array text of
                        Some g \<Rightarrow> loads (strip_comments g)
                      | None \<Rightarrow> None) of
                  Some segments \<Rightarrow> (segments, [])
                | None \<Rightarrow> (JNull, [StError parse_failed_message, StCode text]))))"






section \<open>Python operations on the parsed values\<close>

text \<open>Truth value of a Python object, as \<^verbatim>\<open>if segments:\<close> takes it.\<close>

fun truthy :: "json \<Rightarrow> bool" where
  "truthy JNull = False"
| "truthy (JBool b) = b"
| "truthy (JInt i) = (i \<noteq> 0)"
| "truthy (JFloat r) = (r \<noteq> 0)"
| "truthy (JStr s) = (s \<noteq> [])"
| "truthy (JArr xs) = (xs \<noteq> [])"
| "truthy (JObj kvs) = (kvs \<noteq> [])"

text \<open>\<^verbatim>\<open>for segment in segments\<close>: a list gives its items, a dict its keys, a string its
  characters; nothing else is iterable.\<close>

fun iterate :: "json \<Rightarrow> exn + json list" where
  "iterate (JArr xs) = Inr xs"
| "iterate (JObj kvs) = Inr (map (\<lambda>kv. JStr (fst kv)) kvs)"
| "iterate (JStr s) = Inr (map (\<lambda>c. JStr [c]) s)"
| "iterate v = Inl TypeError"

text \<open>\<^verbatim>\<open>segment['key']\<close>: only a dict can be subscripted by a string.\<close>

fun subscript :: "json \<Rightarrow> string \<Rightarrow> exn + json" where
  "subscript (JObj kvs) k =
     (case map_of kvs k of
        None \<Rightarrow> Inl (KeyError k)
      | Some v \<Rightarrow> Inr v)"
| "subscript v k = Inl TypeError"

text \<open>A value in a numeric comparison or subtraction (\<^verbatim>\<open>bool\<close> is a subclass of
  \<^verbatim>\<open>int\<close>), and a value as a list index; other types raise \<^verbatim>\<open>TypeError\<close>.\<close>

fun as_number :: "json \<Rightarrow> exn + rat" where
  "as_number (JBool b) = Inr (if b then 1 else 0)"
| "as_number (JInt i) = Inr (of_int i)"
| "as_number (JFloat r) = Inr r"
| "as_number v = Inl TypeError"

fun as_index :: "json \<Rightarrow> exn + int" where
  "as_index (JBool b) = Inr (if b then 1 else 0)"
| "as_index (JInt i) = Inr i"
| "as_index v = Inl TypeError"

text \<open>Sequencing: the first exception raised ends the computation.\<close>

definition and_then :: "exn + 'a \<Rightarrow> ('a \<Rightarrow> exn + 'b) \<Rightarrow> exn + 'b" where
  "and_then m f = (case m of Inl e \<Rightarrow> Inl e | Inr x \<Rightarrow> f x)"

text \<open>\<^verbatim>\<open>xs[i]\<close> on a Python list: an index below zero counts from the end of the list,
  and an index outside \<^verbatim>\<open>-len(xs) .. len(xs) - 1\<close> raises \<^verbatim>\<open>IndexError\<close>.\<close>

definition list_item :: "'a list \<Rightarrow> int \<Rightarrow> exn + 'a" where
  "list_item xs i =
     (if 0 \<le> i \<and> i < int (length xs) then Inr (xs ! nat i)
      else if i < 0 \<and> - int (length xs) \<le> i then Inr (xs ! nat (int (length xs) + i))
      else Inl IndexError)"

text \<open>\<^verbatim>\<open>int(x)\<close> on a float: truncation towards zero.\<close>

definition py_int :: "rat \<Rightarrow> int" where
  "py_int x = (if 0 \<le> x then \<lfloor>x\<rfloor> else \<lceil>x\<rceil>)"

section \<open>Clips\<close>

text \<open>
  The video library (MoviePy) is outside the repository. A clip is the term of the
  library calls that built it; \<open>clip_size\<close>, \<open>duration\<close> and \<open>has_audio\<close> read from the term
  what the library documents for each call: a crop has the size of its rectangle, a
  resize the size asked for, a subclip lasts from its start to its end, and none of
  these calls or effects removes the sound track. A temporary file is named by a
  number.
\<close>

type_synonym path = nat

record video_info =
  vi_duration :: rat
  vi_w :: int
  vi_h :: int
  vi_audio :: bool

datatype effect =
    Blackwhite
  | Colorx rat
  | LumContrast int int int
  | GammaCorr rat
  | CrossFadeIn rat
  | FadeIn rat
  | FadeOut rat

datatype clip =
    VideoFileClip path video_info
  | Subclip clip rat rat
  | Crop clip int int int int
  | Resize clip int int
  | Fx clip effect

fun clip_size :: "clip \<Rightarrow> int \<times> int" where
  "clip_size (VideoFileClip p info) = (vi_w info, vi_h info)"
| "clip_size (Subclip c t0 t1) = clip_size c"
| "clip_size (Crop c x1 y1 width height) = (width, height)"
| "clip_size (Resize c width height) = (width, height)"
| "clip_size (Fx c e) = clip_size c"

fun duration :: "clip \<Rightarrow> rat" where
  "duration (VideoFileClip p info) = vi_duration info"
| "duration (Subclip c t0 t1) = t1 - t0"
| "duration (Crop c x1 y1 width height) = duration c"
| "duration (Resize c width height) = duration c"
| "duration (Fx c e) = duration c"

fun has_audio :: "clip \<Rightarrow> bool" where
  "has_audio (VideoFileClip p info) = vi_audio info"
| "has_audio (Subclip c t0 t1) = has_audio c"
| "has_audio (Crop c x1 y1 width height) = has_audio c"
| "has_audio (Resize c width height) = has_audio c"
| "has_audio (Fx c e) = has_audio c"

section \<open>Geometry normalization\<close>

definition target_w :: int where
  "target_w = 1080"

definition target_h :: int where
  "target_h = 1920"

definition target_ratio :: rat where
  "target_ratio = of_int target_w / of_int target_h"

text \<open>
  The crop rectangle \<open>(x1, y1, crop_w, crop_h)\<close> that \<^verbatim>\<open>process_video_segments\<close>
  computes from the size of the sub-clip. \<^verbatim>\<open>orig_w / orig_h\<close> raises
  \<^verbatim>\<open>ZeroDivisionError\<close> on a height of zero; \<^verbatim>\<open>//\<close> is floor division. The ratios
  are rationals here and floats in the script: 0.5625 is a float, and for the sizes a
  frame can have the rounded quotients compare with it, and truncate, as the exact
  ones do.
\<close>

definition crop_box :: "int \<Rightarrow> int \<Rightarrow> exn + (int \<times> int \<times> int \<times> int)" where
  "crop_box orig_w orig_h =
     (if orig_h = 0 then Inl ZeroDivisionError
      else
        (let orig_ratio = (of_int orig_w :: rat) / of_int orig_h
         in if orig_ratio > target_ratio then
              (let crop_w = py_int (of_int orig_h * target_ratio);
                   crop_h = orig_h;
                   x1 = (orig_w - crop_w) div 2;
                   y1 = 0
               in Inr (x1, y1, crop_w, crop_h))
            else
              (let crop_w = orig_w;
                   crop_h = py_int (of_int orig_w / target_ratio);
                   x1 = 0;
                   y1 = (orig_h - crop_h) div 2
               in Inr (x1, y1, crop_w, crop_h))))"

text \<open>Crop to the rectangle, then resize to 1080 by 1920.\<close>

definition normalize_geometry :: "clip \<Rightarrow> exn + clip" where
  "normalize_geometry sub =
     and_then (crop_box (fst (clip_size sub)) (snd (clip_size sub)))
       (\<lambda>(x1, y1, crop_w, crop_h).
          Inr (Resize (Crop sub x1 y1 crop_w crop_h) target_w target_h))"

text \<open>What is trimmed on each side of the crop rectangle, inside a frame of the given
  size: left, right, top, bottom.\<close>

definition margins :: "int \<times> int \<Rightarrow> int \<times> int \<times> int \<times> int \<Rightarrow> int \<times> int \<times> int \<times> int" where
  "margins sz box =
     (case (sz, box) of
        ((orig_w, orig_h), (x1, y1, crop_w, crop_h)) \<Rightarrow>
          (x1, orig_w - (x1 + crop_w), y1, orig_h - (y1 + crop_h)))"

section \<open>Filters and transitions\<close>

definition apply_filter :: "string \<Rightarrow> clip \<Rightarrow> clip" where
  "apply_filter filter_type c =
     (if filter_type = ''Black & White'' then Fx c Blackwhite
      else if filter_type = ''Vibrant'' then Fx c (Colorx (13 / 10))
      else if filter_type = ''Cinematic'' then Fx c (LumContrast 0 30 128)
      else if filter_type = ''Vintage'' then Fx c (GammaCorr (12 / 10))
      else c)"

definition apply_transition :: "string \<Rightarrow> clip \<Rightarrow> clip" where
  "apply_transition transition_type c =
     (if transition_type = ''Crossfade (0.5s)'' then Fx c (CrossFadeIn (1 / 2))
      else if transition_type = ''Fade In/Out'' then Fx (Fx c (FadeIn (1 / 2))) (FadeOut (1 / 2))
      else c)"

section \<open>The segment loop of the Assembler\<close>

text \<open>
  One iteration of \<^verbatim>\<open>for segment in segments\<close> in \<^verbatim>\<open>process_video_segments\<close>: it
  raises (\<open>Inl\<close>), goes on to the next segment without a clip (\<open>Skip\<close>, the
  \<^verbatim>\<open>continue\<close> statements) or appends a clip (\<open>Keep\<close>). \<open>probe p\<close> is what
  \<^verbatim>\<open>VideoFileClip\<close> finds when it opens the file \<open>p\<close>, \<open>None\<close> when it cannot read it.
  The steps are the statements of the source in their order; the assignments to
  \<^verbatim>\<open>end\<close> and to \<^verbatim>\<open>sub\<close> are the two steps that cannot raise.
\<close>

datatype step = Skip | Keep clip

definition open_clip :: "(path \<Rightarrow> video_info option) \<Rightarrow> path \<Rightarrow> exn + clip" where
  "open_clip probe p =
     (case probe p of
        None \<Rightarrow> Inl OSError
      | Some info \<Rightarrow> Inr (VideoFileClip p info))"

definition process_segment ::
  "(path \<Rightarrow> video_info option) \<Rightarrow> path list \<Rightarrow> string \<Rightarrow> string \<Rightarrow> json \<Rightarrow> exn + step" where
  "process_segment probe temp_paths transition_type filter_type segment =
     and_then (subscript segment ''source_index'') (\<lambda>idx.
     and_then (subscript segment ''start_time'') (\<lambda>start.
     and_then (subscript segment ''end_time'') (\<lambda>end_time.
     and_then (as_number idx) (\<lambda>idx_num.
       if idx_num \<ge> of_nat (length temp_paths) then Inr Skip
       else
     and_then (as_index idx) (\<lambda>i.
     and_then (list_item temp_paths i) (\<lambda>p.
     and_then (open_clip probe p) (\<lambda>original_clip.
     and_then (as_number end_time) (\<lambda>end0.
     and_then (Inr (if end0 > duration original_clip then duration original_clip else end0))
       (\<lambda>end1.
     and_then (as_number start) (\<lambda>start0.
       if start0 \<ge> end1 then Inr Skip
       else if end1 - start0 < 1 / 2 then Inr Skip
       else
     and_then (Inr (Subclip original_clip start0 end1)) (\<lambda>sub.
     and_then (normalize_geometry sub) (\<lambda>final_clip_base.
       Inr (Keep (apply_transition transition_type
                    (apply_filter filter_type final_clip_base)))))))))))))))"

text \<open>The loop: \<open>clips\<close> is the list built so far; an exception leaves the loop.\<close>

fun collect_clips ::
  "(path \<Rightarrow> video_info option) \<Rightarrow> path list \<Rightarrow> string \<Rightarrow> string \<Rightarrow> json list \<Rightarrow> clip list
     \<Rightarrow> exn + clip list" where
  "collect_clips probe temp_paths transition_type filter_type [] clips = Inr clips"
| "collect_clips probe temp_paths transition_type filter_type (segment # rest) clips =
     (case process_segment probe temp_paths transition_type filter_type segment of
        Inl e \<Rightarrow> Inl e
      | Inr r \<Rightarrow>
          (case r of
             Skip \<Rightarrow> collect_clips probe temp_paths transition_type filter_type rest clips
           | Keep c \<Rightarrow>
               collect_clips probe temp_paths transition_type filter_type rest (clips @ [c])))"

text \<open>A segment as the prompt asks for it (the advisory \<^verbatim>\<open>reason\<close> is never read).\<close>

definition segment_of :: "json \<Rightarrow> json \<Rightarrow> json \<Rightarrow> json" where
  "segment_of idx start end_time =
     JObj [(''source_index'', idx), (''start_time'', start), (''end_time'', end_time)]"

text \<open>Two landscape sources of 20 seconds for the examples, in the files 0 and 1.\<close>

definition landscape :: video_info where
  "landscape = \<lparr>vi_duration = 20, vi_w = 1920, vi_h = 1080, vi_audio = True\<rparr>"

definition two_sources :: "path \<Rightarrow> video_info option" where
  "two_sources p = (if p = 0 \<or> p = 1 then Some landscape else None)"

section \<open>Background music\<close>

text \<open>
  Audio clips and the final video, again as terms of the library calls. What the
  library documents of their durations: \<^verbatim>\<open>loop(duration=d)\<close> sets the duration to \<open>d\<close>
  unless \<open>d\<close> is zero, \<^verbatim>\<open>subclip(t0, t1)\<close> lasts \<open>t1 - t0\<close>, \<^verbatim>\<open>volumex\<close> keeps the
  duration, a composite lasts as long as its longest part, a concatenation as long as
  its clips together, and the sound track of a video as long as the video.
\<close>

datatype audio =
    AudioFileClip path rat
  | TrackOf "clip list"
  | Loop audio rat
  | AudioSubclip audio rat rat
  | Volumex audio rat
  | CompositeAudioClip "audio list"

fun audio_duration :: "audio \<Rightarrow> rat" where
  "audio_duration (AudioFileClip p d) = d"
| "audio_duration (TrackOf cs) = sum_list (map duration cs)"
| "audio_duration (Loop a d) = (if d \<noteq> 0 then d else audio_duration a)"
| "audio_duration (AudioSubclip a t0 t1) = t1 - t0"
| "audio_duration (Volumex a factor) = audio_duration a"
| "audio_duration (CompositeAudioClip parts) = foldr max (map audio_duration parts) 0"

datatype video =
    Concatenate "clip list"
  | SetAudio video audio

fun video_duration :: "video \<Rightarrow> rat" where
  "video_duration (Concatenate cs) = sum_list (map duration cs)"
| "video_duration (SetAudio v a) = video_duration v"

text \<open>\<^verbatim>\<open>final_video.audio\<close>: a concatenation has a sound track when one of its clips has.\<close>

fun video_audio :: "video \<Rightarrow> audio option" where
  "video_audio (Concatenate cs) = (if list_ex has_audio cs then Some (TrackOf cs) else None)"
| "video_audio (SetAudio v a) = Some a"

text \<open>The mixing of \<^verbatim>\<open>process_video_segments\<close>, from the opened \<^verbatim>\<open>music\<close> clip on.\<close>

definition mix_music :: "audio \<Rightarrow> video \<Rightarrow> video" where
  "mix_music music final_video =
     (let music1 = (if audio_duration music < video_duration final_video
                    then Loop music (video_duration final_video)
                    else AudioSubclip music 0 (video_duration final_video));
          music2 = Volumex music1 (2 / 10);
          final_audio = (case video_audio final_video of
                           Some own \<Rightarrow> CompositeAudioClip [own, music2]
                         | None \<Rightarrow> music2)
      in SetAudio final_video final_audio)"

section \<open>Temporary files and the run\<close>

text \<open>
  The temporary directory: what each file of the run holds. An uploaded video is what
  \<^verbatim>\<open>VideoFileClip\<close> will find in its bytes (\<open>None\<close>: not a readable video), an uploaded
  audio file the duration that \<^verbatim>\<open>AudioFileClip\<close> will find (\<open>None\<close>: not readable).
  \<^verbatim>\<open>NamedTemporaryFile\<close> picks a name that no file has; \<open>fresh\<close> is the next one.
\<close>

datatype content =
    VideoBytes "video_info option"
  | AudioBytes "rat option"
  | NoBytes
  | Rendered video

record state =
  files :: "path \<Rightarrow> content option"
  fresh :: nat
  shown :: "event list"

definition display :: "event list \<Rightarrow> state \<Rightarrow> state" where
  "display evs st = st\<lparr>shown := shown st @ evs\<rparr>"

text \<open>\<^verbatim>\<open>tempfile.NamedTemporaryFile(delete=False)\<close>, written and closed.\<close>

definition mktemp :: "content \<Rightarrow> state \<Rightarrow> path \<times> state" where
  "mktemp bytes st =
     (fresh st, st\<lparr>files := (files st)(fresh st \<mapsto> bytes), fresh := Suc (fresh st)\<rparr>)"

text \<open>What the outside does in one run: which uploads to the service succeed, whether
  the uploaded files become active, the answers to the generation requests, whether
  listing the models succeeds, \<^verbatim>\<open>json.loads\<close>, whether the encoder succeeds, and which
  files \<^verbatim>\<open>os.remove\<close> can delete.\<close>

record env =
  upload_file_ok :: "path \<Rightarrow> bool"
  files_become_active :: bool
  generate_content :: "nat \<Rightarrow> gen_result"
  list_models_ok :: bool
  json_loads :: "string \<Rightarrow> json option"
  write_videofile_ok :: bool
  remove_ok :: "path \<Rightarrow> bool"

text \<open>\<^verbatim>\<open>os.remove(path)\<close>: raises when the file is missing or cannot be deleted.\<close>

definition os_remove :: "env \<Rightarrow> path \<Rightarrow> state \<Rightarrow> (exn + unit) \<times> state" where
  "os_remove env p st =
     (if files st p \<noteq> None \<and> remove_ok env p then (Inr (), st\<lparr>files := (files st)(p := None)\<rparr>)
      else (Inl OSError, st))"

text \<open>\<^verbatim>\<open>str(e)\<close>; for the built-in exceptions the text stands for the interpreter's.\<close>

fun str_of :: "exn \<Rightarrow> string" where
  "str_of (Exception msg) = msg"
| "str_of (KeyError k) = [CHR 0x27] @ k @ [CHR 0x27]"
| "str_of TypeError = ''TypeError''"
| "str_of IndexError = ''list index out of range''"
| "str_of ZeroDivisionError = ''division by zero''"
| "str_of OSError = ''OSError''"
| "str_of UnboundLocalError = ''UnboundLocalError''"

subsection \<open>The Segment Selector\<close>

text \<open>The first loop of \<^verbatim>\<open>analyze_videos_with_gemini\<close>: every video is written to a
  temporary file, the file's name is appended to \<^verbatim>\<open>temp_paths\<close>, then the file is
  uploaded to the service (which may raise).\<close>

fun upload_loop ::
  "env \<Rightarrow> video_info option list \<Rightarrow> path list \<Rightarrow> state \<Rightarrow> (exn + unit) \<times> path list \<times> state" where
  "upload_loop env [] temp_paths st = (Inr (), temp_paths, st)"
| "upload_loop env (uploaded_file # rest) temp_paths st =
     (case mktemp (VideoBytes uploaded_file) st of
        (tfile, st1) \<Rightarrow>
          if upload_file_ok env tfile then upload_loop env rest (temp_paths @ [tfile]) st1
          else (Inl (Exception ''upload failed''), temp_paths @ [tfile], st1))"

definition analysis_error :: "exn \<Rightarrow> event" where
  "analysis_error e = StError (''An error occurred during AI analysis: '' @ str_of e)"

text \<open>
  \<^verbatim>\<open>analyze_videos_with_gemini\<close>: the value is the pair \<^verbatim>\<open>(segments, temp_paths)\<close> it
  returns, \<open>JNull\<close> being Python's \<^verbatim>\<open>None\<close>. \<^verbatim>\<open>wait_for_files_active\<close> polls the service
  until no file is processing and raises when one is then not active; the model takes
  its outcome from \<open>env\<close> (a polling that never ends has no outcome).
\<close>

definition analyze_videos_with_gemini ::
  "env \<Rightarrow> video_info option list \<Rightarrow> state \<Rightarrow> (json \<times> path list) \<times> state" where
  "analyze_videos_with_gemini env video_files st =
     (case upload_loop env video_files [] st of
        (uploaded, temp_paths, st1) \<Rightarrow>
          (case uploaded of
             Inl e \<Rightarrow> ((JNull, temp_paths), display [analysis_error e] st1)
           | Inr u \<Rightarrow>
               if \<not> files_become_active env then
                 ((JNull, temp_paths),
                  display [analysis_error (Exception ''File failed to process'')] st1)
               else
                 (case generate_with_retry (generate_content env) of
                    (Inl e, evs) \<Rightarrow>
                      ((JNull, temp_paths),
                       display (evs @ [StError (''Error generating content: '' @ str_of e),
                                       StWarning ''Listing available models for your API key:'']
                                    @ (if list_models_ok env then []
                                       else [analysis_error (Exception ''list_models failed'')]))
                         st1)
                  | (Inr text, evs) \<Rightarrow>
                      (case parse_response (json_loads env) text of
                         (segments, evs2) \<Rightarrow>
                           ((segments, temp_paths), display (evs @ evs2) st1)))))"

subsection \<open>The Video Assembler\<close>

definition video_at :: "state \<Rightarrow> path \<Rightarrow> video_info option" where
  "video_at st p = (case files st p of Some (VideoBytes v) \<Rightarrow> v | _ \<Rightarrow> None)"

text \<open>The block \<^verbatim>\<open>if audio_file:\<close>. The audio upload is written to a temporary file,
  opened, mixed, and the file removed; an exception on the way leaves the block.\<close>

definition add_background_music ::
  "env \<Rightarrow> rat option option \<Rightarrow> video \<Rightarrow> state \<Rightarrow> (exn + video) \<times> state" where
  "add_background_music env audio_file final_video st =
     (case audio_file of
        None \<Rightarrow> (Inr final_video, st)
      | Some bytes \<Rightarrow>
          (case mktemp (AudioBytes bytes) st of
             (audio_temp, st1) \<Rightarrow>
               (case bytes of
                  None \<Rightarrow> (Inl OSError, st1)
                | Some d \<Rightarrow>
                    (case os_remove env audio_temp st1 of
                       (Inl e, st2) \<Rightarrow> (Inl e, st2)
                     | (Inr u, st2) \<Rightarrow>
                         (Inr (mix_music (AudioFileClip audio_temp d) final_video), st2)))))"

definition processing_error :: "exn \<Rightarrow> event" where
  "processing_error e = StError (''Error processing video: '' @ str_of e)"

text \<open>\<^verbatim>\<open>process_video_segments\<close>: the value is the path of the rendered file, \<open>None\<close>
  where the function returns \<^verbatim>\<open>None\<close>.\<close>

definition process_video_segments ::
  "env \<Rightarrow> json \<Rightarrow> path list \<Rightarrow> string \<Rightarrow> rat option option \<Rightarrow> string \<Rightarrow> state
     \<Rightarrow> path option \<times> state" where
  "process_video_segments env segments temp_paths transition_type audio_file filter_type st =
     (case and_then (iterate segments)
             (\<lambda>segs. collect_clips (video_at st) temp_paths transition_type filter_type segs []) of
        Inl e \<Rightarrow> (None, display [processing_error e] st)
      | Inr clips \<Rightarrow>
          if clips = [] then (None, st)
          else
            (case add_background_music env audio_file (Concatenate clips) st of
               (Inl e, st1) \<Rightarrow> (None, display [processing_error e] st1)
             | (Inr final_video, st1) \<Rightarrow>
                 (case mktemp NoBytes st1 of
                    (output_tfile, st2) \<Rightarrow>
                      if write_videofile_ok env then
                        (Some output_tfile,
                         st2\<lparr>files := (files st2)(output_tfile \<mapsto> Rendered final_video)\<rparr>)
                      else
                        (None, display [processing_error (Exception ''encoding failed'')] st2))))"

subsection \<open>The page script\<close>

definition too_many_message :: string where
  "too_many_message = ''Please upload a maximum of 4 videos.''"

text \<open>The check on the uploader's list: the list that the rest of the script uses, and
  what is shown.\<close>

definition limit_uploads :: "'a list \<Rightarrow> 'a list \<times> event list" where
  "limit_uploads uploaded_files =
     (if uploaded_files \<noteq> [] \<and> length uploaded_files > 4
      then (take 4 uploaded_files, [StError too_many_message])
      else (uploaded_files, []))"

text \<open>The cleanup loop: \<^verbatim>\<open>os.remove\<close> on every path, an exception passed over.\<close>

fun cleanup :: "env \<Rightarrow> path list \<Rightarrow> state \<Rightarrow> state" where
  "cleanup env [] st = st"
| "cleanup env (p # ps) st = cleanup env ps (snd (os_remove env p st))"

text \<open>The branch that runs the two stages and then the cleanup loop.\<close>

definition pipeline ::
  "env \<Rightarrow> video_info option list \<Rightarrow> string \<Rightarrow> string \<Rightarrow> rat option option \<Rightarrow> state
     \<Rightarrow> path option \<times> state" where
  "pipeline env uploaded_files filter_option transition_option bg_music st =
     (case analyze_videos_with_gemini env uploaded_files st of
        ((segments, temp_paths), st1) \<Rightarrow>
          (case (if truthy segments then
                   (case process_video_segments env segments temp_paths transition_option
                           bg_music filter_option st1 of
                      (Some final_video_path, st2) \<Rightarrow>
                        (Some final_video_path,
                         display [StStatus ''Reel Ready!'', StVideo final_video_path] st2)
                    | (None, st2) \<Rightarrow>
                        (None, display [StStatus ''Failed to generate video''] st2))
                 else (None, display [StStatus ''Could not analyze videos''] st1)) of
             (final_video_path, st3) \<Rightarrow> (final_video_path, cleanup env temp_paths st3)))"

text \<open>The block \<^verbatim>\<open>if generate_btn:\<close>; an API key that is missing is the empty string.\<close>

definition on_generate ::
  "env \<Rightarrow> string \<Rightarrow> video_info option list \<Rightarrow> string \<Rightarrow> string \<Rightarrow> rat option option \<Rightarrow> state
     \<Rightarrow> path option \<times> state" where
  "on_generate env api_key uploaded_files filter_option transition_option bg_music st =
     (if api_key = [] then (None, display [StError ''API Key is missing!''] st)
      else if uploaded_files = [] then
        (None, display [StError ''Please upload at least one video.''] st)
      else pipeline env uploaded_files filter_option transition_option bg_music st)"

text \<open>One execution of the script, from the uploader's list on.\<close>

definition script ::
  "env \<Rightarrow> string \<Rightarrow> video_info option list \<Rightarrow> string \<Rightarrow> string \<Rightarrow> rat option option \<Rightarrow> bool
     \<Rightarrow> state \<Rightarrow> path option \<times> state" where
  "script env api_key uploads filter_option transition_option bg_music generate_btn st =
     (case limit_uploads uploads of
        (uploaded_files, evs) \<Rightarrow>
          if generate_btn then
            on_generate env api_key uploaded_files filter_option transition_option bg_music
              (display evs st)
          else (None, display evs st))"

text \<open>A run in which everything succeeds, for the examples: the service answers with
  one segment, seconds 2 to 8 of the first upload.\<close>

definition one_segment_text :: string where
  "one_segment_text =
     ''[{'' @ [CHR 0x22] @ ''source_index'' @ [CHR 0x22] @ '': 0, ''
       @ [CHR 0x22] @ ''start_time'' @ [CHR 0x22] @ '': 2, ''
       @ [CHR 0x22] @ ''end_time'' @ [CHR 0x22] @ '': 8}]''"

definition good_env :: env where
  "good_env =
     \<lparr>upload_file_ok = (\<lambda>p. True), files_become_active = True,
      generate_content = (\<lambda>attempt. Response one_segment_text), list_models_ok = True,
      json_loads = (\<lambda>t. if t = one_segment_text
                         then Some (JArr [segment_of (JInt 0) (JInt 2) (JInt 8)])
                         else None),
      write_videofile_ok = True, remove_ok = (\<lambda>p. True)\<rparr>"

definition empty_state :: state where
  "empty_state = \<lparr>files = (\<lambda>p. None), fresh = 0, shown = []\<rparr>"


section \<open>The retry loop: three requests, two waits\<close>

lemma retry_loop_step:
  "attempt < max_retries \<Longrightarrow>
   retry_loop gen attempt tr =
     (case gen attempt of
        Response r \<Rightarrow> (Inr r, tr @ [Generate attempt])
      | Raises e \<Rightarrow>
          if is_rate_limit e then
            (if attempt < max_retries - 1 then
               retry_loop gen (attempt + 1)
                 (tr @ [Generate attempt,
                        RateLimitWarning (2 ^ attempt * 2) (attempt + 2) max_retries,
                        Sleep (2 ^ attempt * 2)])
             else (Inl (Exception rate_limit_message), tr @ [Generate attempt]))
          else (Inl (Exception e), tr @ [Generate attempt]))"
  by (subst retry_loop.simps) simp

lemma retry_loop_third:
  "retry_loop gen 2 tr =
     (case gen 2 of
        Response r \<Rightarrow> (Inr r, tr @ [Generate 2])
      | Raises e \<Rightarrow>
          if is_rate_limit e then (Inl (Exception rate_limit_message), tr @ [Generate 2])
          else (Inl (Exception e), tr @ [Generate 2]))"
  by (simp add: retry_loop_step max_retries_def)

lemma retry_loop_second:
  "retry_loop gen (Suc 0) tr =
     (case gen (Suc 0) of
        Response r \<Rightarrow> (Inr r, tr @ [Generate (Suc 0)])
      | Raises e \<Rightarrow>
          if is_rate_limit e
          then retry_loop gen 2 (tr @ [Generate (Suc 0), RateLimitWarning 4 3 3, Sleep 4])
          else (Inl (Exception e), tr @ [Generate (Suc 0)]))"
proof -
  have "Suc 0 + 1 = 2" "(2::nat) ^ Suc 0 * 2 = 4" "Suc 0 + 2 = 3" "Suc 0 < 3 - 1" "Suc 0 < 3"
    by simp_all
  then show ?thesis
    using retry_loop_step [of "Suc 0" gen tr] unfolding max_retries_def by (simp only: if_True)
qed

lemma retry_loop_first:
  "retry_loop gen 0 tr =
     (case gen 0 of
        Response r \<Rightarrow> (Inr r, tr @ [Generate 0])
      | Raises e \<Rightarrow>
          if is_rate_limit e
          then retry_loop gen (Suc 0) (tr @ [Generate 0, RateLimitWarning 2 2 3, Sleep 2])
          else (Inl (Exception e), tr @ [Generate 0]))"
proof -
  have "(0::nat) + 1 = Suc 0" "(2::nat) ^ 0 * 2 = 2" "(0::nat) + 2 = 2" "(0::nat) < 3 - 1" "(0::nat) < 3"
    by simp_all
  then show ?thesis
    using retry_loop_step [of 0 gen tr] unfolding max_retries_def by (simp only: if_True)
qed

lemmas retry_unfold = generate_with_retry_def retry_loop_first retry_loop_second retry_loop_third

lemma retry_three_rate_limits:
  assumes "\<forall>a < max_retries. \<exists>e. gen a = Raises e \<and> is_rate_limit e"
  shows "generate_with_retry gen =
     (Inl (Exception rate_limit_message),
      [Generate 0, RateLimitWarning 2 2 3, Sleep 2,
       Generate 1, RateLimitWarning 4 3 3, Sleep 4,
       Generate 2])"
proof -
  have "\<exists>e. gen 0 = Raises e \<and> is_rate_limit e"
    using assms by (simp add: max_retries_def)
  then obtain e0 where g0: "gen 0 = Raises e0" "is_rate_limit e0"
    by blast
  have "\<exists>e. gen 1 = Raises e \<and> is_rate_limit e"
    using assms by (simp add: max_retries_def)
  then obtain e1 where g1: "gen 1 = Raises e1" "is_rate_limit e1"
    by blast
  have "\<exists>e. gen 2 = Raises e \<and> is_rate_limit e"
    using assms by (simp add: max_retries_def)
  then obtain e2 where g2: "gen 2 = Raises e2" "is_rate_limit e2"
    by blast
  show ?thesis
    using g0 g1 g2 by (simp add: retry_unfold)
qed

lemma retry_at_most_three:
  "requests (snd (generate_with_retry gen)) \<le> 3 \<and>
   prefix (sleeps (snd (generate_with_retry gen))) [2, 4]"
  by (simp add: retry_unfold split: gen_result.split)

lemma always_429_rate_limited:
  "\<forall>a < max_retries. \<exists>e. always_429 a = Raises e \<and> is_rate_limit e"
  by (simp add: always_429_def is_rate_limit_def)

lemma analysis_fails_on_rate_limits:
  assumes "\<forall>a < max_retries. \<exists>e. generate_content env a = Raises e \<and> is_rate_limit e"
  shows "fst (fst (analyze_videos_with_gemini env video_files st)) = JNull"
  using retry_three_rate_limits [OF assms]
  by (simp add: analyze_videos_with_gemini_def split: prod.splits sum.splits)

text \<open>
  C1, as the code has it. Whatever the service answers, the loop makes at most three
  requests and its waits are a prefix of 2 s, then 4 s. When the requests keep failing
  with a rate-limit error, the loop makes exactly three requests, waits 2 s after the
  first and 4 s after the second, and the third rate-limit error ends it with the
  exception "Rate limit exceeded": there is no wait of 8 s and no fourth request. The
  analysis then returns \<^verbatim>\<open>None\<close> for the segments.
\<close>

theorem retry_backoff:
  "requests (snd (generate_with_retry gen)) \<le> 3
   \<and> prefix (sleeps (snd (generate_with_retry gen))) [2, 4]
   \<and> ((\<forall>a < max_retries. \<exists>e. gen a = Raises e \<and> is_rate_limit e) \<longrightarrow>
        generate_with_retry gen =
          (Inl (Exception rate_limit_message),
           [Generate 0, RateLimitWarning 2 2 3, Sleep 2,
            Generate 1, RateLimitWarning 4 3 3, Sleep 4,
            Generate 2]))
   \<and> ((\<forall>a < max_retries. \<exists>e. generate_content env a = Raises e \<and> is_rate_limit e) \<longrightarrow>
        fst (fst (analyze_videos_with_gemini env video_files st)) = JNull)"
  using retry_at_most_three [of gen] retry_three_rate_limits [of gen]
    analysis_fails_on_rate_limits [of env video_files st]
  by blast

theorem retry_backoff_witness:
  "generate_with_retry always_429 =
     (Inl (Exception rate_limit_message),
      [Generate 0, RateLimitWarning 2 2 3, Sleep 2,
       Generate 1, RateLimitWarning 4 3 3, Sleep 4,
       Generate 2])
   \<and> fst (fst (analyze_videos_with_gemini (good_env\<lparr>generate_content := always_429\<rparr>)
                  [Some landscape] empty_state)) = JNull"
proof -
  have "\<forall>a < max_retries. \<exists>e.
      generate_content (good_env\<lparr>generate_content := always_429\<rparr>) a = Raises e
      \<and> is_rate_limit e"
    using always_429_rate_limited by simp
  with retry_backoff [of always_429 "good_env\<lparr>generate_content := always_429\<rparr>"
      "[Some landscape]" empty_state] always_429_rate_limited
  show ?thesis
    by blast
qed

text \<open>
  C1 as the claim states it fails: against a service that always answers 429, the waits
  are 2 s and 4 s, not 2 s, 4 s and 8 s, and the run has failed after three requests.
\<close>

theorem retry_no_third_wait:
  "sleeps (snd (generate_with_retry always_429)) \<noteq> [2, 4, 8]
   \<and> requests (snd (generate_with_retry always_429)) = 3
   \<and> fst (generate_with_retry always_429) = Inl (Exception rate_limit_message)"
  using retry_three_rate_limits [OF always_429_rate_limited] by simp

section \<open>The parsing cascade\<close>













section \<open>The crop rectangle\<close>

lemma and_then_simps:
  "and_then (Inl e) f = Inl e"
  "and_then (Inr x) f = f x"
  by (simp_all add: and_then_def)

lemma and_then_InrE:
  assumes "and_then m f = Inr y"
  obtains x where "m = Inr x" "f x = Inr y"
  using assms by (cases m) (simp_all add: and_then_simps)

lemma target_ratio_eq: "target_ratio = 9 / 16"
  by (simp add: target_ratio_def target_w_def target_h_def)

text \<open>The two branches in integer arithmetic: the frame is wider than 9:16 exactly
  when \<open>9 * orig_h < 16 * orig_w\<close>.\<close>

lemma crop_box_landscape:
  assumes "0 < orig_h" "9 * orig_h < 16 * orig_w"
  shows "crop_box orig_w orig_h =
           Inr ((orig_w - 9 * orig_h div 16) div 2, 0, 9 * orig_h div 16, orig_h)"
proof -
  have r: "(of_int orig_w :: rat) / of_int orig_h > 9 / 16"
    using assms by (simp add: field_simps)
  have nn: "(0::rat) \<le> of_int orig_h * (9 / 16)"
    using assms by simp
  have fl: "\<lfloor>(of_int orig_h :: rat) * (9 / 16)\<rfloor> = 9 * orig_h div 16"
  proof -
    have "(of_int orig_h :: rat) * (9 / 16) = of_int (9 * orig_h) / of_int 16"
      by simp
    then show ?thesis
      by (simp only: floor_divide_of_int_eq)
  qed
  show ?thesis
    using assms r nn fl by (simp add: crop_box_def target_ratio_eq py_int_def Let_def)
qed

lemma crop_box_portrait:
  assumes "0 < orig_h" "0 \<le> orig_w" "16 * orig_w \<le> 9 * orig_h"
  shows "crop_box orig_w orig_h =
           Inr (0, (orig_h - 16 * orig_w div 9) div 2, orig_w, 16 * orig_w div 9)"
proof -
  have r: "\<not> (of_int orig_w :: rat) / of_int orig_h > 9 / 16"
    using assms by (simp add: field_simps not_less)
  have nn: "(0::rat) \<le> of_int orig_w / (9 / 16)"
    using assms by simp
  have fl: "\<lfloor>(of_int orig_w :: rat) / (9 / 16)\<rfloor> = 16 * orig_w div 9"
  proof -
    have "(of_int orig_w :: rat) / (9 / 16) = of_int (16 * orig_w) / of_int 9"
      by simp
    then show ?thesis
      by (simp only: floor_divide_of_int_eq)
  qed
  show ?thesis
    using assms r nn fl by (simp add: crop_box_def target_ratio_eq py_int_def Let_def)
qed

lemma crop_box_margins:
  assumes "0 < orig_w" "0 < orig_h"
  shows "\<exists>x1 y1 crop_w crop_h left right top bottom.
           crop_box orig_w orig_h = Inr (x1, y1, crop_w, crop_h)
         \<and> margins (orig_w, orig_h) (x1, y1, crop_w, crop_h) = (left, right, top, bottom)
         \<and> 0 \<le> left \<and> right = left + (left + right) mod 2
         \<and> 0 \<le> top \<and> bottom = top + (top + bottom) mod 2
         \<and> (left + right = 0 \<or> top + bottom = 0)
         \<and> 0 \<le> crop_w \<and> 0 \<le> crop_h"
proof (cases "9 * orig_h < 16 * orig_w")
  case True
  define t where "t = orig_w - 9 * orig_h div 16"
  have "9 * orig_h div 16 \<le> orig_w"
    using True assms by linarith
  then have t0: "0 \<le> t"
    by (simp add: t_def)
  show ?thesis
  proof (intro exI conjI)
    show "crop_box orig_w orig_h = Inr (t div 2, 0, 9 * orig_h div 16, orig_h)"
      unfolding t_def by (rule crop_box_landscape [OF assms(2) True])
    show "margins (orig_w, orig_h) (t div 2, 0, 9 * orig_h div 16, orig_h)
            = (t div 2, t - t div 2, 0, 0)"
      by (simp add: margins_def t_def)
    show "0 \<le> t div 2"
      using t0 by simp
    show "t - t div 2 = t div 2 + (t div 2 + (t - t div 2)) mod 2"
      by presburger
    show "(0::int) \<le> 0" "(0::int) = 0 + (0 + 0) mod 2"
      by simp_all
    show "t div 2 + (t - t div 2) = 0 \<or> (0::int) + 0 = 0"
      by simp
    show "0 \<le> 9 * orig_h div 16" "0 \<le> orig_h"
      using assms by simp_all
  qed
next
  case False
  define t where "t = orig_h - 16 * orig_w div 9"
  have "16 * orig_w div 9 \<le> orig_h"
    using False assms by linarith
  then have t0: "0 \<le> t"
    by (simp add: t_def)
  have le: "16 * orig_w \<le> 9 * orig_h" "0 \<le> orig_w"
    using False assms by simp_all
  show ?thesis
  proof (intro exI conjI)
    show "crop_box orig_w orig_h = Inr (0, t div 2, orig_w, 16 * orig_w div 9)"
      unfolding t_def by (rule crop_box_portrait [OF assms(2) le(2) le(1)])
    show "margins (orig_w, orig_h) (0, t div 2, orig_w, 16 * orig_w div 9)
            = (0, 0, t div 2, t - t div 2)"
      by (simp add: margins_def t_def)
    show "0 \<le> t div 2"
      using t0 by simp
    show "t - t div 2 = t div 2 + (t div 2 + (t - t div 2)) mod 2"
      by presburger
    show "(0::int) \<le> 0" "(0::int) = 0 + (0 + 0) mod 2"
      by simp_all
    show "(0::int) + 0 = 0 \<or> t div 2 + (t - t div 2) = 0"
      by simp
    show "0 \<le> orig_w" "0 \<le> 16 * orig_w div 9"
      using assms by simp_all
  qed
qed

lemma clip_size_filter: "clip_size (apply_filter ft c) = clip_size c"
  by (simp add: apply_filter_def)

lemma clip_size_transition: "clip_size (apply_transition tt c) = clip_size c"
  by (simp add: apply_transition_def)

lemma normalize_geometry_size:
  "normalize_geometry sub = Inr c \<Longrightarrow> clip_size c = (target_w, target_h)"
  by (cases "crop_box (fst (clip_size sub)) (snd (clip_size sub))")
     (auto simp: normalize_geometry_def and_then_simps)

text \<open>What a kept clip is made of.\<close>

lemma process_segment_Keep:
  assumes "process_segment probe temp_paths tt ft segment = Inr (Keep c)"
  shows "\<exists>original_clip start0 end1 base.
           \<not> end1 - start0 < 1 / 2
           \<and> normalize_geometry (Subclip original_clip start0 end1) = Inr base
           \<and> c = apply_transition tt (apply_filter ft base)"
  using assms unfolding process_segment_def
  by (elim and_then_InrE) (auto split: if_splits elim!: and_then_InrE, blast+)

lemma kept_clip_size:
  "process_segment probe temp_paths tt ft segment = Inr (Keep c) \<Longrightarrow>
     clip_size c = (1080, 1920)"
  using process_segment_Keep [of probe temp_paths tt ft segment c]
  by (auto simp: clip_size_filter clip_size_transition target_w_def target_h_def
        dest!: normalize_geometry_size)



text \<open>The segment of the examples: seconds 2 to 8 of the first source.\<close>

lemma good_segment:
  "process_segment two_sources [0, 1] ''None'' ''None''
     (segment_of (JInt 0) (JInt 2) (JInt 8)) =
   Inr (Keep (Resize (Crop (Subclip (VideoFileClip 0 landscape) 2 8) 656 0 607 1080) 1080 1920))"
  by (simp add: process_segment_def and_then_simps segment_of_def list_item_def two_sources_def
      open_clip_def landscape_def normalize_geometry_def crop_box_landscape apply_filter_def
      apply_transition_def target_w_def target_h_def)

text \<open>
  C3, as the code has it. Every clip that the loop keeps is 1080 by 1920 after the
  normalization. For every source frame of positive width and height the crop rectangle
  lies in the frame, nothing is trimmed along one axis, and along the other the
  leading margin \<open>x1\<close> (or \<open>y1\<close>) is the trimmed total halved and rounded down: the two
  margins are equal when the total is even, and the trailing one is a pixel larger
  when it is odd.
\<close>

theorem crop_centred_within_a_pixel:
  "(process_segment probe temp_paths tt ft segment = Inr (Keep c) \<longrightarrow>
      clip_size c = (1080, 1920))
   \<and> (0 < orig_w \<and> 0 < orig_h \<longrightarrow>
        (\<exists>x1 y1 crop_w crop_h left right top bottom.
           crop_box orig_w orig_h = Inr (x1, y1, crop_w, crop_h)
         \<and> margins (orig_w, orig_h) (x1, y1, crop_w, crop_h) = (left, right, top, bottom)
         \<and> 0 \<le> left \<and> right = left + (left + right) mod 2
         \<and> 0 \<le> top \<and> bottom = top + (top + bottom) mod 2
         \<and> (left + right = 0 \<or> top + bottom = 0)
         \<and> 0 \<le> crop_w \<and> 0 \<le> crop_h))"
  using kept_clip_size [of probe temp_paths tt ft segment c] crop_box_margins [of orig_w orig_h]
  by blast

theorem crop_centred_within_a_pixel_witness:
  "clip_size (Resize (Crop (Subclip (VideoFileClip 0 landscape) 2 8) 656 0 607 1080) 1080 1920)
     = (1080, 1920)
   \<and> (\<exists>x1 y1 crop_w crop_h left right top bottom.
           crop_box 1920 1080 = Inr (x1, y1, crop_w, crop_h)
         \<and> margins (1920, 1080) (x1, y1, crop_w, crop_h) = (left, right, top, bottom)
         \<and> 0 \<le> left \<and> right = left + (left + right) mod 2
         \<and> 0 \<le> top \<and> bottom = top + (top + bottom) mod 2
         \<and> (left + right = 0 \<or> top + bottom = 0)
         \<and> 0 \<le> crop_w \<and> 0 \<le> crop_h)"
proof -
  have pos: "(0::int) < 1920 \<and> (0::int) < 1080"
    by simp
  show ?thesis
    using crop_centred_within_a_pixel [of two_sources "[0, 1]" "''None''" "''None''"
        "segment_of (JInt 0) (JInt 2) (JInt 8)"
        "Resize (Crop (Subclip (VideoFileClip 0 landscape) 2 8) 656 0 607 1080) 1080 1920"
        1920 1080]
      good_segment pos
    by blast
qed

text \<open>
  C3 as the claim states it fails where the trimmed total is odd: a 1920 by 1080 frame
  is cropped to 607 columns, 656 are trimmed on the left and 657 on the right.
\<close>

theorem crop_margins_differ:
  "crop_box 1920 1080 = Inr (656, 0, 607, 1080)
   \<and> margins (1920, 1080) (656, 0, 607, 1080) = (656, 657, 0, 0)"
  by (simp add: crop_box_landscape margins_def)



section \<open>Validation of a segment\<close>





section \<open>Invalid entries of the Edit Decision List\<close>











section \<open>A negative source index\<close>

text \<open>
  C6 at the failing input. With two source files, a segment whose \<^verbatim>\<open>source_index\<close> is
  \<open>-1\<close> is not skipped: the only check is \<^verbatim>\<open>idx >= len(temp_paths)\<close>, and
  \<^verbatim>\<open>temp_paths[-1]\<close> is the last file, so the clip is cut from file 1. With the index
  \<open>-3\<close> the subscript raises \<^verbatim>\<open>IndexError\<close>, which aborts the run.
\<close>

theorem negative_index_takes_last_source:
  "process_segment two_sources [0, 1] ''None'' ''None''
     (segment_of (JInt (- 1)) (JInt 0) (JInt 5)) =
   Inr (Keep (Resize (Crop (Subclip (VideoFileClip 1 landscape) 0 5) 656 0 607 1080) 1080 1920))
   \<and> process_segment two_sources [0, 1] ''None'' ''None''
     (segment_of (JInt (- 3)) (JInt 0) (JInt 5)) = Inl IndexError"
  by (simp add: process_segment_def and_then_simps segment_of_def list_item_def two_sources_def
      open_clip_def landscape_def normalize_geometry_def crop_box_landscape apply_filter_def
      apply_transition_def target_w_def target_h_def)

section \<open>The duration of the mixed sound track\<close>












section \<open>Temporary files at the end of a run\<close>

lemma os_remove_files:
  "files (snd (os_remove env p st)) q =
     (if q = p \<and> remove_ok env p then None else files st q)"
  by (simp add: os_remove_def)

lemma os_remove_fresh: "fresh (snd (os_remove env p st)) = fresh st"
  by (simp add: os_remove_def)

lemma cleanup_gone:
  "files st p = None \<Longrightarrow> files (cleanup env ps st) p = None"
  by (induction ps arbitrary: st) (simp_all add: os_remove_files)

lemma cleanup_removes:
  "p \<in> set ps \<Longrightarrow> remove_ok env p \<Longrightarrow> files (cleanup env ps st) p = None"
proof (induction ps arbitrary: st)
  case Nil
  then show ?case by simp
next
  case (Cons q qs)
  show ?case
  proof (cases "p = q")
    case True
    with Cons.prems have "files (snd (os_remove env q st)) p = None"
      by (simp add: os_remove_files)
    then show ?thesis
      by (simp add: cleanup_gone)
  next
    case False
    with Cons show ?thesis by simp
  qed
qed

lemma cleanup_other:
  "p \<notin> set ps \<Longrightarrow> files (cleanup env ps st) p = files st p"
  by (induction ps arbitrary: st) (simp_all add: os_remove_files)

lemma display_files: "files (display evs st) = files st" "fresh (display evs st) = fresh st"
  by (simp_all add: display_def)

lemma upload_loop_paths:
  "upload_loop env vs tp st = (r, tp', st') \<Longrightarrow>
     fresh st \<le> fresh st' \<and> set tp' \<subseteq> set tp \<union> {fresh st ..< fresh st'}
     \<and> length tp' \<le> length tp + length vs"
proof (induction vs arbitrary: tp st)
  case Nil
  then show ?case by auto
next
  case (Cons v vs)
  define st1 where "st1 = snd (mktemp (VideoBytes v) st)"
  have f1: "fresh st1 = Suc (fresh st)" and m: "mktemp (VideoBytes v) st = (fresh st, st1)"
    by (simp_all add: st1_def mktemp_def)
  show ?case
  proof (cases "upload_file_ok env (fresh st)")
    case True
    with Cons.prems m have "upload_loop env vs (tp @ [fresh st]) st1 = (r, tp', st')"
      by simp
    from Cons.IH [OF this] f1 show ?thesis
      by auto
  next
    case False
    with Cons.prems m have "tp' = tp @ [fresh st]" "st' = st1"
      by simp_all
    with f1 show ?thesis by auto
  qed
qed

lemma analyze_paths:
  assumes "analyze_videos_with_gemini env vs st = ((segments, tp), st')"
  shows "set tp \<subseteq> {fresh st ..< fresh st'} \<and> length tp \<le> length vs"
proof -
  obtain r tp1 st1 where u: "upload_loop env vs [] st = (r, tp1, st1)"
    by (metis prod_cases3)
  from upload_loop_paths [OF u]
  have p: "fresh st \<le> fresh st1" "set tp1 \<subseteq> {fresh st ..< fresh st1}" "length tp1 \<le> length vs"
    by auto
  from assms u have "tp = tp1 \<and> fresh st' = fresh st1"
    by (auto simp: analyze_videos_with_gemini_def display_files
        split: sum.splits if_splits prod.splits)
  with p show ?thesis by simp
qed

lemma add_background_music_fresh:
  "add_background_music env af v st = (r, st') \<Longrightarrow> fresh st \<le> fresh st'"
  by (auto simp: add_background_music_def mktemp_def os_remove_def
      split: option.splits prod.splits sum.splits if_splits)

lemma add_background_music_removes:
  "add_background_music env (Some bytes) v st = (Inr v', st') \<Longrightarrow> files st' (fresh st) = None"
  by (auto simp: add_background_music_def mktemp_def os_remove_def
      split: option.splits prod.splits sum.splits if_splits)

lemma process_output:
  assumes "process_video_segments env segments tp tt af ft st = (Some out, st')"
  shows "fresh st \<le> out \<and> (\<exists>v. files st' out = Some (Rendered v))"
proof -
  from assms obtain clips where
    c: "and_then (iterate segments) (\<lambda>segs. collect_clips (video_at st) tp tt ft segs []) = Inr clips"
    by (cases "and_then (iterate segments) (\<lambda>segs. collect_clips (video_at st) tp tt ft segs [])")
       (auto simp: process_video_segments_def)
  obtain r st1 where a: "add_background_music env af (Concatenate clips) st = (r, st1)"
    by (metis surj_pair)
  from add_background_music_fresh [OF a] have f: "fresh st \<le> fresh st1" .
  from assms c a f show ?thesis
    by (auto simp: process_video_segments_def mktemp_def split: if_splits sum.splits)
qed

lemma pipeline_shape:
  assumes a: "analyze_videos_with_gemini env ups st = ((segments, tp), st1)"
    and p: "pipeline env ups fo tro bg st = (result, st')"
  shows "\<exists>st3. st' = cleanup env tp st3
           \<and> (\<forall>out. result = Some out \<longrightarrow>
                 fresh st1 \<le> out \<and> (\<exists>v. files st3 out = Some (Rendered v)))"
proof (cases "truthy segments")
  case False
  with a p show ?thesis
    by (auto simp: pipeline_def)
next
  case True
  obtain r st2 where pr: "process_video_segments env segments tp tro bg fo st1 = (r, st2)"
    by (metis surj_pair)
  show ?thesis
  proof (cases r)
    case None
    with a p True pr show ?thesis
      by (auto simp: pipeline_def)
  next
    case (Some out)
    with process_output [of env segments tp tro bg fo st1 out st2] pr
    have o: "fresh st1 \<le> out" "\<exists>v. files st2 out = Some (Rendered v)"
      by auto
    from a p True pr Some
    have "result = Some out"
      "st' = cleanup env tp (display [StStatus ''Reel Ready!'', StVideo out] st2)"
      by (auto simp: pipeline_def)
    with o show ?thesis
      by (auto simp: display_files)
  qed
qed

text \<open>
  C8, as the code has it. On every exit of the pipeline, whatever failed: each path in
  \<^verbatim>\<open>temp_paths\<close> (the temporary copies of the uploaded videos) that \<^verbatim>\<open>os.remove\<close> can
  delete is gone after the cleanup loop, a failing deletion being passed over. The
  rendered output file is not deleted by the run: when the pipeline returns its path,
  the file exists at the end. The temporary file of the background audio is deleted
  in the Assembler when the mixing has gone through.
\<close>

theorem cleanup_of_temp_files:
  "(pipeline env uploaded_files filter_option transition_option bg_music st = (result, st') \<longrightarrow>
      (\<forall>p \<in> set (snd (fst (analyze_videos_with_gemini env uploaded_files st))).
          remove_ok env p \<longrightarrow> files st' p = None)
      \<and> (\<forall>out. result = Some out \<longrightarrow> (\<exists>v. files st' out = Some (Rendered v))))
   \<and> (add_background_music env (Some bytes) final_video st0 = (Inr v, st1) \<longrightarrow>
        files st1 (fresh st0) = None)"
proof (intro conjI impI ballI allI)
  fix p
  assume p: "pipeline env uploaded_files filter_option transition_option bg_music st = (result, st')"
    and m: "p \<in> set (snd (fst (analyze_videos_with_gemini env uploaded_files st)))"
    and r: "remove_ok env p"
  obtain segments tp sta where
    a: "analyze_videos_with_gemini env uploaded_files st = ((segments, tp), sta)"
    by (metis surj_pair)
  from pipeline_shape [OF a p] obtain st3 where "st' = cleanup env tp st3"
    by blast
  with m r a show "files st' p = None"
    by (simp add: cleanup_removes)
next
  fix out
  assume p: "pipeline env uploaded_files filter_option transition_option bg_music st = (result, st')"
    and o: "result = Some out"
  obtain segments tp sta where
    a: "analyze_videos_with_gemini env uploaded_files st = ((segments, tp), sta)"
    by (metis surj_pair)
  from pipeline_shape [OF a p] o obtain st3 v where
    s: "st' = cleanup env tp st3" "fresh sta \<le> out" "files st3 out = Some (Rendered v)"
    by blast
  from analyze_paths [OF a] s(2) have "out \<notin> set tp"
    by auto
  with s show "\<exists>v. files st' out = Some (Rendered v)"
    by (simp add: cleanup_other)
next
  assume "add_background_music env (Some bytes) final_video st0 = (Inr v, st1)"
  then show "files st1 (fresh st0) = None"
    by (rule add_background_music_removes)
qed

lemma analyze_example:
  "analyze_videos_with_gemini good_env [Some landscape] empty_state =
     ((JArr [segment_of (JInt 0) (JInt 2) (JInt 8)], [0]),
      \<lparr>files = (\<lambda>p. if p = 0 then Some (VideoBytes (Some landscape)) else None),
       fresh = Suc 0, shown = [Generate 0]\<rparr>)"
  by (simp add: analyze_videos_with_gemini_def mktemp_def good_env_def empty_state_def
      retry_unfold parse_response_def display_def fun_eq_iff)

lemma one_upload_probe:
  "video_at \<lparr>files = (\<lambda>p. if p = 0 then Some (VideoBytes (Some landscape)) else None),
       fresh = Suc 0, shown = [Generate 0]\<rparr> = (\<lambda>p. if p = 0 then Some landscape else None)"
  by (rule ext) (simp add: video_at_def)

lemma one_upload_segment:
  "process_segment (\<lambda>p. if p = 0 then Some landscape else None) [0] ''None'' ''None''
     (segment_of (JInt 0) (JInt 2) (JInt 8)) =
   Inr (Keep (Resize (Crop (Subclip (VideoFileClip 0 landscape) 2 8) 656 0 607 1080) 1080 1920))"
  by (simp add: process_segment_def and_then_simps segment_of_def list_item_def
      open_clip_def landscape_def normalize_geometry_def crop_box_landscape apply_filter_def
      apply_transition_def target_w_def target_h_def)

lemma process_example:
  "fst (process_video_segments good_env (JArr [segment_of (JInt 0) (JInt 2) (JInt 8)]) [0]
     ''None'' (Some (Some 3)) ''None''
     \<lparr>files = (\<lambda>p. if p = 0 then Some (VideoBytes (Some landscape)) else None),
       fresh = Suc 0, shown = [Generate 0]\<rparr>) = Some 2"
  unfolding process_video_segments_def one_upload_probe iterate.simps and_then_simps
    collect_clips.simps one_upload_segment
  by (simp add: add_background_music_def mktemp_def os_remove_def good_env_def)

lemma pipeline_example:
  "fst (pipeline good_env [Some landscape] ''None'' ''None'' (Some (Some 3)) empty_state) = Some 2"
proof -
  obtain st2 where "process_video_segments good_env
      (JArr [segment_of (JInt 0) (JInt 2) (JInt 8)]) [0] ''None'' (Some (Some 3)) ''None''
      \<lparr>files = (\<lambda>p. if p = 0 then Some (VideoBytes (Some landscape)) else None),
       fresh = Suc 0, shown = [Generate 0]\<rparr> = (Some 2, st2)"
    using process_example by (metis prod.collapse)
  then show ?thesis
    by (simp add: pipeline_def analyze_example)
qed

text \<open>A run that succeeds, with one upload and music: the copy of the upload (file 0)
  is gone, the rendered file (file 2) is there; and the audio file of a mixing that
  went through (file 0 of an empty directory) is gone.\<close>

theorem cleanup_of_temp_files_witness:
  "files (snd (pipeline good_env [Some landscape] ''None'' ''None'' (Some (Some 3)) empty_state)) 0
     = None
   \<and> (\<exists>v. files (snd (pipeline good_env [Some landscape] ''None'' ''None'' (Some (Some 3))
                         empty_state)) 2 = Some (Rendered v))
   \<and> files (snd (add_background_music good_env (Some (Some 3)) (Concatenate []) empty_state)) 0
       = None"
proof -
  have p: "pipeline good_env [Some landscape] ''None'' ''None'' (Some (Some 3)) empty_state
      = (Some 2, snd (pipeline good_env [Some landscape] ''None'' ''None'' (Some (Some 3))
                        empty_state))"
    using pipeline_example by (metis prod.collapse)
  have m: "0 \<in> set (snd (fst (analyze_videos_with_gemini good_env [Some landscape] empty_state)))"
    by (simp add: analyze_example)
  have r: "remove_ok good_env 0"
    by (simp add: good_env_def)
  have "\<exists>v st1. add_background_music good_env (Some (Some 3)) (Concatenate []) empty_state
      = (Inr v, st1)"
    by (simp add: add_background_music_def mktemp_def os_remove_def good_env_def empty_state_def)
  then obtain v st1 where
    e: "add_background_music good_env (Some (Some 3)) (Concatenate []) empty_state = (Inr v, st1)"
    by blast
  note t = cleanup_of_temp_files [where env = good_env and uploaded_files = "[Some landscape]"
      and filter_option = "''None''" and transition_option = "''None''"
      and bg_music = "Some (Some 3)" and st = empty_state and result = "Some 2"
      and st' = "snd (pipeline good_env [Some landscape] ''None'' ''None'' (Some (Some 3))
                        empty_state)"
      and bytes = "Some 3" and final_video = "Concatenate []" and ?st0.0 = empty_state
      and v = v and ?st1.0 = st1]
  from t e have "files st1 (fresh empty_state) = None"
    by blast
  with e have 3: "files (snd (add_background_music good_env (Some (Some 3)) (Concatenate [])
      empty_state)) 0 = None"
    by (simp add: empty_state_def)
  from t p m r 3 show ?thesis
    by blast
qed

text \<open>
  C8 as the claim states it fails: after the successful run the final rendered output
  file, file 2, still exists.
\<close>

theorem output_file_is_left:
  "fst (script good_env ''key'' [Some landscape] ''None'' ''None'' (Some (Some 3)) True
          empty_state) = Some 2
   \<and> files (snd (script good_env ''key'' [Some landscape] ''None'' ''None'' (Some (Some 3)) True
                   empty_state)) 2 \<noteq> None"
proof -
  have s: "script good_env ''key'' [Some landscape] ''None'' ''None'' (Some (Some 3)) True
          empty_state
        = pipeline good_env [Some landscape] ''None'' ''None'' (Some (Some 3)) empty_state"
    by (simp add: script_def limit_uploads_def on_generate_def display_def empty_state_def)
  have p: "pipeline good_env [Some landscape] ''None'' ''None'' (Some (Some 3)) empty_state
      = (Some 2, snd (pipeline good_env [Some landscape] ''None'' ''None'' (Some (Some 3))
                        empty_state))"
    using pipeline_example by (metis prod.collapse)
  from pipeline_shape [OF analyze_example p] obtain st3 v where
    "snd (pipeline good_env [Some landscape] ''None'' ''None'' (Some (Some 3)) empty_state)
       = cleanup good_env [0] st3" "files st3 2 = Some (Rendered v)"
    by auto
  then have "files (snd (pipeline good_env [Some landscape] ''None'' ''None'' (Some (Some 3))
      empty_state)) 2 = Some (Rendered v)"
    by (simp add: os_remove_files)
  with s pipeline_example show ?thesis
    by simp
qed

section \<open>More than four uploads\<close>

lemma limit_uploads_many:
  "4 < length uploads \<Longrightarrow> limit_uploads uploads = (take 4 uploads, [StError too_many_message])"
  by (auto simp: limit_uploads_def)

text \<open>
  C10. With more than four uploaded files the list is cut to its first four, in
  upload order, and an error message is shown; the run is not rejected: when the
  button is pressed the script goes on with these four, and with an API key it runs
  the pipeline on them. The analysis creates at most four temporary files, the only
  sources that the assembly can read.
\<close>

theorem upload_limit:
  "4 < length uploads \<longrightarrow>
     limit_uploads uploads = (take 4 uploads, [StError too_many_message])
     \<and> length (take 4 uploads) = 4
     \<and> script env api_key uploads filter_option transition_option bg_music True st
         = on_generate env api_key (take 4 uploads) filter_option transition_option bg_music
             (display [StError too_many_message] st)
     \<and> (api_key \<noteq> [] \<longrightarrow>
          script env api_key uploads filter_option transition_option bg_music True st
            = pipeline env (take 4 uploads) filter_option transition_option bg_music
                (display [StError too_many_message] st))
     \<and> length (snd (fst (analyze_videos_with_gemini env (take 4 uploads) st'))) \<le> 4"
proof (intro impI conjI)
  assume l: "4 < length uploads"
  then show "limit_uploads uploads = (take 4 uploads, [StError too_many_message])"
    by (rule limit_uploads_many)
  from l show "length (take 4 uploads) = 4"
    by simp
  from l show "script env api_key uploads filter_option transition_option bg_music True st
         = on_generate env api_key (take 4 uploads) filter_option transition_option bg_music
             (display [StError too_many_message] st)"
    by (simp add: script_def limit_uploads_many)
  from l have ne: "take 4 uploads \<noteq> []"
    by auto
  assume "api_key \<noteq> []"
  with l ne show "script env api_key uploads filter_option transition_option bg_music True st
            = pipeline env (take 4 uploads) filter_option transition_option bg_music
                (display [StError too_many_message] st)"
    by (simp add: script_def limit_uploads_many on_generate_def)
next
  assume l: "4 < length uploads"
  obtain segments tp sta where
    a: "analyze_videos_with_gemini env (take 4 uploads) st' = ((segments, tp), sta)"
    by (metis surj_pair)
  from analyze_paths [OF a] l show
    "length (snd (fst (analyze_videos_with_gemini env (take 4 uploads) st'))) \<le> 4"
    by (simp add: a)
qed

theorem upload_limit_witness:
  "script good_env ''key'' [Some landscape, None, None, None, None, None] ''None'' ''None'' None
     True empty_state
   = pipeline good_env [Some landscape, None, None, None] ''None'' ''None'' None
       (display [StError too_many_message] empty_state)"
proof -
  have l: "4 < length [Some landscape, None, None, None, None, None]"
    by simp
  have k: "''key'' \<noteq> []"
    by simp
  from upload_limit [of "[Some landscape, None, None, None, None, None]" good_env "''key''"
      "''None''" "''None''" None empty_state empty_state] l k
  have "script good_env ''key'' [Some landscape, None, None, None, None, None] ''None'' ''None''
      None True empty_state
    = pipeline good_env (take 4 [Some landscape, None, None, None, None, None]) ''None'' ''None''
        None (display [StError too_many_message] empty_state)"
    by blast
  then show ?thesis
    by simp
qed

end
